theory Spec2Isabelle
  imports Complex_Main "HOL-Library.Word" "HOL-Library.Log_Nat"
begin

section \<open>The database side: tables, SQL values and the stored routines\<close>

text \<open>
  The SQL script creates three stored procedures and one trigger over tables that the
  web framework's migrations create. The tables are lists of rows; a row is a record
  with the columns the routines read or write. Primary and foreign keys are integers,
  decimal columns are exact rationals (\<open>4.00\<close> is \<open>4\<close>, \<open>3.25\<close> is \<open>13 / 4\<close>),
  \<open>DATETIME\<close> values are seconds on one time line, and the boolean columns
  \<open>is_approved\<close> and \<open>is_active\<close> hold \<open>1\<close> for true and \<open>0\<close> for false.
\<close>

record category_row =
  cat_id :: int
  cat_name :: string

record brand_row =
  br_id :: int
  br_name :: string

record product_row =
  pr_id :: int
  pr_name :: string
  pr_slug :: string
  pr_price :: rat
  pr_old_price :: "rat option"
  pr_rating :: rat
  pr_reviews_count :: nat
  pr_category_id :: int
  pr_brand_id :: int
  pr_is_active :: bool

record review_row =
  rv_product_id :: int
  rv_rating :: int
  rv_is_approved :: bool

record order_row =
  ord_id :: int
  ord_user_id :: "int option"
  ord_status :: string
  ord_total_amount :: rat
  ord_created_at :: int

record orderitem_row =
  oi_id :: int
  oi_order_id :: int
  oi_product_id :: int
  oi_quantity :: int
  oi_price :: rat

record orderlog_row =
  log_order_id :: int
  log_old_status :: string
  log_new_status :: string
  log_changed_by :: "int option"
  log_changed_at :: int

record database =
  catalog_category :: "category_row list"
  catalog_brand :: "brand_row list"
  catalog_product :: "product_row list"
  catalog_review :: "review_row list"
  orders_order :: "order_row list"
  orders_orderitem :: "orderitem_row list"
  orders_orderlog :: "orderlog_row list"

datatype sql_error = Out_of_range_value | Negative_limit

subsection \<open>SQL values: NULL, three-valued conditions, AVG and ROUND\<close>

text \<open>
  A nullable value is an \<open>option\<close> (\<open>None\<close> is NULL). A comparison with NULL is
  unknown, and a \<open>WHERE\<close> or \<open>ON\<close> clause keeps a row only when its condition is true.
\<close>

definition sql_eq :: "'a option \<Rightarrow> 'a option \<Rightarrow> bool option" where
  "sql_eq a b = (case a of None \<Rightarrow> None | Some x \<Rightarrow> (case b of None \<Rightarrow> None | Some y \<Rightarrow> Some (x = y)))"

definition sql_and :: "bool option \<Rightarrow> bool option \<Rightarrow> bool option" where
  "sql_and a b =
     (if a = Some False \<or> b = Some False then Some False
      else if a = Some True \<and> b = Some True then Some True
      else None)"

definition is_true :: "bool option \<Rightarrow> bool" where
  "is_true c = (c = Some True)"

definition tinyint :: "bool \<Rightarrow> int" where
  "tinyint b = (if b then 1 else 0)"

text \<open>\<open>AVG\<close> of no rows is NULL; otherwise it is the exact quotient of sum and count.\<close>

definition AVG :: "int list \<Rightarrow> rat option" where
  "AVG xs = (if xs = [] then None else Some (of_int (sum_list xs) / of_nat (length xs)))"

text \<open>
  \<open>ROUND(x, d)\<close> on an exact value rounds to \<open>d\<close> fractional digits, a tie going away
  from zero.
\<close>

definition ROUND :: "rat \<Rightarrow> nat \<Rightarrow> rat" where
  "ROUND x d =
     (if 0 \<le> x then of_int \<lfloor>x * 10 ^ d + 1 / 2\<rfloor> / 10 ^ d
      else - (of_int \<lfloor>- x * 10 ^ d + 1 / 2\<rfloor> / 10 ^ d))"

text \<open>
  Storing into a variable declared \<open>DECIMAL(3,2)\<close> rounds to two fractional digits.
  The script sets \<open>STRICT_TRANS_TABLES\<close> before it creates the routines, so a value
  beyond \<open>9.99\<close> in magnitude is an error and not a clipped value. NULL is stored as NULL.
\<close>

definition store_DECIMAL_3_2 :: "rat option \<Rightarrow> sql_error + rat option" where
  "store_DECIMAL_3_2 v =
     (case v of
        None \<Rightarrow> Inr None
      | Some x \<Rightarrow>
          (if \<bar>ROUND x 2\<bar> \<le> 999 / 100 then Inr (Some (ROUND x 2)) else Inl Out_of_range_value))"

subsection \<open>UpdateProductRating\<close>

text \<open>
  The procedure's parameter is named \<open>product_id\<close>, as the column of
  \<open>catalog_review\<close> is. Inside a routine an unqualified name that is both a parameter
  and a column denotes the parameter, so both sides of \<open>product_id = product_id\<close> in the
  two \<open>WHERE\<close> clauses over \<open>catalog_review\<close> are the parameter; the row's own column
  is not read. \<open>review_selected\<close> is that clause, written as the source writes it: the
  parameter compared with itself, and the row's \<open>is_approved\<close> compared with 1.
\<close>

definition review_selected :: "int option \<Rightarrow> review_row \<Rightarrow> bool" where
  "review_selected product_id r =
     is_true (sql_and (sql_eq product_id product_id)
                      (sql_eq (Some (tinyint (rv_is_approved r))) (Some 1)))"

text \<open>
  \<open>SELECT AVG(rating) INTO avg_rating\<close>, the NULL test, and the \<open>UPDATE\<close> of the rows of
  \<open>catalog_product\<close> whose \<open>id\<close> equals the parameter (\<open>id\<close> is a column only).
\<close>

definition UpdateProductRating :: "int option \<Rightarrow> database \<Rightarrow> sql_error + database" where
  "UpdateProductRating product_id db =
     (case store_DECIMAL_3_2
             (AVG (map rv_rating (filter (review_selected product_id) (catalog_review db)))) of
        Inl e \<Rightarrow> Inl e
      | Inr selected_avg \<Rightarrow>
          (let avg_rating = (case selected_avg of None \<Rightarrow> 0 | Some a \<Rightarrow> a);
               review_count = length (filter (review_selected product_id) (catalog_review db))
           in Inr (db\<lparr>catalog_product :=
                      map (\<lambda>p. if is_true (sql_eq (Some (pr_id p)) product_id)
                                then p\<lparr>pr_rating := ROUND avg_rating 2,
                                       pr_reviews_count := review_count\<rparr>
                                else p)
                          (catalog_product db)\<rparr>)))"

text \<open>Example data: two products, three approved reviews of product 7, one of product 8.\<close>

definition phone :: "int \<Rightarrow> product_row" where
  "phone i =
     \<lparr>pr_id = i, pr_name = ''phone'', pr_slug = ''phone'', pr_price = 100,
      pr_old_price = None, pr_rating = 0, pr_reviews_count = 0,
      pr_category_id = 1, pr_brand_id = 1, pr_is_active = True\<rparr>"

definition review :: "int \<Rightarrow> int \<Rightarrow> review_row" where
  "review p n = \<lparr>rv_product_id = p, rv_rating = n, rv_is_approved = True\<rparr>"

definition empty_db :: database where
  "empty_db =
     \<lparr>catalog_category = [], catalog_brand = [], catalog_product = [],
      catalog_review = [], orders_order = [], orders_orderitem = [], orders_orderlog = []\<rparr>"

definition shop_7_8 :: database where
  "shop_7_8 =
     empty_db\<lparr>catalog_product := [phone 7, phone 8],
              catalog_review := [review 7 4, review 7 5, review 7 3, review 8 1]\<rparr>"

definition shop_unreviewed_7 :: database where
  "shop_unreviewed_7 =
     empty_db\<lparr>catalog_product := [phone 7, phone 8], catalog_review := [review 8 5]\<rparr>"

subsection \<open>GetPopularProducts\<close>

text \<open>
  A \<open>LEFT JOIN\<close> keeps a left row that has no match, once, with NULL for the right
  side: \<open>left_join\<close> takes the matching right rows of one left row.
\<close>

definition left_join :: "'a list \<Rightarrow> 'a option list" where
  "left_join matches = (if matches = [] then [None] else map Some matches)"

definition DATE_SUB_days :: "int \<Rightarrow> int \<Rightarrow> int" where
  "DATE_SUB_days t n = t - n * 86400"

text \<open>
  The \<open>FROM\<close> clause, join by join. The two inner joins keep the categories and brands
  whose id the product names. The first left join takes the order items of the product.
  The second takes, for an order item, the orders with its \<open>order_id\<close> that were created at
  or after \<open>now\<close> minus \<open>days_back\<close> days; the date test stands in that join's \<open>ON\<close>
  clause, so an order item whose order is older stays in the result with a NULL order.
\<close>

definition popular_from ::
  "int \<Rightarrow> int \<Rightarrow> database \<Rightarrow>
   (product_row \<times> category_row \<times> brand_row \<times> orderitem_row option \<times> order_row option) list" where
  "popular_from now days_back db =
     [(p, c, b, oi, od).
        p \<leftarrow> catalog_product db,
        c \<leftarrow> filter (\<lambda>c. pr_category_id p = cat_id c) (catalog_category db),
        b \<leftarrow> filter (\<lambda>b. pr_brand_id p = br_id b) (catalog_brand db),
        oi \<leftarrow> left_join (filter (\<lambda>i. pr_id p = oi_product_id i) (orders_orderitem db)),
        od \<leftarrow> left_join
               (filter (\<lambda>od. is_true (sql_and (sql_eq (map_option oi_order_id oi) (Some (ord_id od)))
                                              (Some (DATE_SUB_days now days_back \<le> ord_created_at od))))
                       (orders_order db))]"

record popular_row =
  res_id :: int
  res_name :: string
  res_slug :: string
  res_price :: rat
  res_old_price :: "rat option"
  res_rating :: rat
  res_reviews_count :: nat
  res_category_name :: string
  res_brand_name :: string
  res_orders_count :: nat
  res_total_sold :: "int option"

text \<open>\<open>SUM\<close> skips NULLs and is NULL when nothing is left; \<open>COUNT(x)\<close> counts the values
  that are not NULL.\<close>

definition SUM_agg :: "int option list \<Rightarrow> int option" where
  "SUM_agg xs = (if List.map_filter id xs = [] then None else Some (sum_list (List.map_filter id xs)))"

definition COUNT :: "'a option list \<Rightarrow> nat" where
  "COUNT xs = length (List.map_filter id xs)"

primrec distinct_keys :: "int list \<Rightarrow> int list" where
  "distinct_keys [] = []"
| "distinct_keys (k # ks) = k # filter (\<lambda>j. j \<noteq> k) (distinct_keys ks)"

text \<open>
  \<open>GROUP BY p.id\<close>: one result row per product id among the joined rows. The columns
  that are not aggregated come from the group's first row.
\<close>

definition popular_group ::
  "(product_row \<times> category_row \<times> brand_row \<times> orderitem_row option \<times> order_row option) list \<Rightarrow>
   popular_row option" where
  "popular_group rows =
     (case rows of
        [] \<Rightarrow> None
      | (p, c, b, oi, od) # rest \<Rightarrow>
          Some \<lparr>res_id = pr_id p, res_name = pr_name p, res_slug = pr_slug p,
                res_price = pr_price p, res_old_price = pr_old_price p,
                res_rating = pr_rating p, res_reviews_count = pr_reviews_count p,
                res_category_name = cat_name c, res_brand_name = br_name b,
                res_orders_count =
                  COUNT (map (\<lambda>(p, c, b, oi, od). map_option oi_id oi) rows),
                res_total_sold =
                  SUM_agg (map (\<lambda>(p, c, b, oi, od). map_option oi_quantity oi) rows)\<rparr>)"

definition popular_groups ::
  "(product_row \<times> category_row \<times> brand_row \<times> orderitem_row option \<times> order_row option) list \<Rightarrow>
   popular_row list" where
  "popular_groups rows =
     List.map_filter
       (\<lambda>k. popular_group (filter (\<lambda>(p, c, b, oi, od). pr_id p = k) rows))
       (distinct_keys (map (\<lambda>(p, c, b, oi, od). pr_id p) rows))"

text \<open>
  \<open>ORDER BY total_sold DESC\<close>: larger totals first, NULL last. Rows with equal totals
  keep their order here; the server promises no order among them.
\<close>

definition sold_before :: "int option \<Rightarrow> int option \<Rightarrow> bool" where
  "sold_before a b =
     (case b of None \<Rightarrow> True | Some y \<Rightarrow> (case a of None \<Rightarrow> False | Some x \<Rightarrow> y \<le> x))"

primrec insert_desc :: "popular_row \<Rightarrow> popular_row list \<Rightarrow> popular_row list" where
  "insert_desc r [] = [r]"
| "insert_desc r (s # ss) =
     (if sold_before (res_total_sold r) (res_total_sold s) then r # s # ss
      else s # insert_desc r ss)"

definition order_by_total_sold_desc :: "popular_row list \<Rightarrow> popular_row list" where
  "order_by_total_sold_desc rows = foldr insert_desc rows []"

text \<open>The whole query; \<open>now\<close> is the value of \<open>NOW()\<close>. A negative \<open>LIMIT\<close> is an error.\<close>

definition GetPopularProducts ::
  "int \<Rightarrow> int \<Rightarrow> int \<Rightarrow> database \<Rightarrow> sql_error + popular_row list" where
  "GetPopularProducts now days_back limit_count db =
     (if limit_count < 0 then Inl Negative_limit
      else Inr (take (nat limit_count)
                  (order_by_total_sold_desc
                     (popular_groups
                        (filter (\<lambda>(p, c, b, oi, od). tinyint (pr_is_active p) = 1)
                                (popular_from now days_back db))))))"

text \<open>A joined row without its order, the part that the rest of the query reads.\<close>

definition without_order ::
  "(product_row \<times> category_row \<times> brand_row \<times> orderitem_row option \<times> order_row option) \<Rightarrow>
   (product_row \<times> category_row \<times> brand_row \<times> orderitem_row option)" where
  "without_order row = (case row of (p, c, b, oi, od) \<Rightarrow> (p, c, b, oi))"

text \<open>Example data: one active product, sold once, five pieces, in an order created at
  second 0.\<close>

definition shop_old_order :: database where
  "shop_old_order =
     empty_db\<lparr>catalog_category := [\<lparr>cat_id = 1, cat_name = ''phones''\<rparr>],
              catalog_brand := [\<lparr>br_id = 1, br_name = ''brand''\<rparr>],
              catalog_product := [phone 1],
              orders_order :=
                [\<lparr>ord_id = 1, ord_user_id = Some 1, ord_status = ''completed'',
                  ord_total_amount = 500, ord_created_at = 0\<rparr>],
              orders_orderitem :=
                [\<lparr>oi_id = 1, oi_order_id = 1, oi_product_id = 1, oi_quantity = 5,
                  oi_price = 100\<rparr>]\<rparr>"

subsection \<open>The trigger order\_status\_change\_log\<close>

text \<open>
  The script creates the database with the collation \<open>utf8mb4_unicode_ci\<close>, and the
  server compares two strings by it: \<open>!=\<close> holds when their sort keys differ. That
  collation gives the same key to the upper and the lower case of a letter and takes no
  account of trailing spaces, so \<open>pending\<close> and \<open>Pending\<close> are equal for \<open>!=\<close>. Its
  weight table is not in the sources: the trigger and the statement below take the sort
  key as the function \<open>collation_key\<close>.

  The trigger's body, run after the update of one row with the row before (\<open>OLD\<close>) and
  after (\<open>NEW\<close>). The status column holds a value in every row (it is not NULL).
\<close>

definition order_status_change_log ::
  "(string \<Rightarrow> 'k) \<Rightarrow> int \<Rightarrow> order_row \<Rightarrow> order_row \<Rightarrow> database \<Rightarrow> database" where
  "order_status_change_log collation_key now OLD NEW db =
     (if collation_key (ord_status OLD) \<noteq> collation_key (ord_status NEW)
      then db\<lparr>orders_orderlog :=
                orders_orderlog db @
                  [\<lparr>log_order_id = ord_id NEW, log_old_status = ord_status OLD,
                    log_new_status = ord_status NEW, log_changed_by = ord_user_id NEW,
                    log_changed_at = now\<rparr>]\<rparr>
      else db)"

text \<open>
  An \<open>UPDATE orders_order SET ... WHERE ...\<close> statement: \<open>condition\<close> is its \<open>WHERE\<close>
  clause and \<open>assignments\<close> its \<open>SET\<close> clause, as a function of the row. Every row the
  condition selects is replaced, and the trigger runs once for each of them, in the
  table's order.
\<close>

definition UPDATE_orders_order ::
  "(string \<Rightarrow> 'k) \<Rightarrow> int \<Rightarrow> (order_row \<Rightarrow> bool) \<Rightarrow> (order_row \<Rightarrow> order_row) \<Rightarrow>
   database \<Rightarrow> database" where
  "UPDATE_orders_order collation_key now condition assignments db =
     fold (\<lambda>OLD d. if condition OLD
                    then order_status_change_log collation_key now OLD (assignments OLD) d
                    else d)
          (orders_order db)
          (db\<lparr>orders_order :=
                map (\<lambda>r. if condition r then assignments r else r) (orders_order db)\<rparr>)"

text \<open>
  The sort key of \<open>utf8mb4_unicode_ci\<close> for words of ASCII letters with spaces after
  them, which is what the example below needs: the word in lower case, without the
  spaces at its end.
\<close>

definition fold_case :: "char \<Rightarrow> char" where
  "fold_case c =
     (case map_of (zip ''ABCDEFGHIJKLMNOPQRSTUVWXYZ'' ''abcdefghijklmnopqrstuvwxyz'') c of
        None \<Rightarrow> c
      | Some l \<Rightarrow> l)"

definition letters_ci_key :: "string \<Rightarrow> string" where
  "letters_ci_key s = map fold_case (rev (dropWhile (\<lambda>c. c = CHR '' '') (rev s)))"

text \<open>Example data: one order of user 3, pending, and the statements
  \<open>UPDATE orders_order SET status = 'Pending' WHERE id = 1\<close> and the same with
  \<open>'shipped'\<close>.\<close>

definition one_pending_order :: database where
  "one_pending_order =
     empty_db\<lparr>orders_order :=
                [\<lparr>ord_id = 1, ord_user_id = Some 3, ord_status = ''pending'',
                  ord_total_amount = 500, ord_created_at = 0\<rparr>]\<rparr>"

definition id_is_1 :: "order_row \<Rightarrow> bool" where
  "id_is_1 r = (ord_id r = 1)"

definition set_status_Pending :: "order_row \<Rightarrow> order_row" where
  "set_status_Pending r = r\<lparr>ord_status := ''Pending''\<rparr>"

definition set_status_shipped :: "order_row \<Rightarrow> order_row" where
  "set_status_shipped r = r\<lparr>ord_status := ''shipped''\<rparr>"

section \<open>The browser side: the handlers of main.js\<close>

subsection \<open>JavaScript values\<close>

text \<open>
  A JavaScript string is a sequence of UTF-16 code units, and \<open>.length\<close> counts them.
  A number is a double. The numbers the handlers compute with are results of \<open>parseInt\<close>
  and what \<open>+ 1\<close> and \<open>- 1\<close> make of them: \<open>NaN\<close>, the two infinities (\<open>parseInt\<close>
  of a very long digit string), and the doubles that are integers. \<open>Finite n\<close> is the
  double whose value is the integer \<open>n\<close>.
\<close>

type_synonym js_string = "16 word list"

datatype js_number = NaN | Infinity | Minus_Infinity | Finite int

text \<open>
  The double nearest to an integer, a tie going to the even significand. Below \<open>2 ^ 53\<close>
  in magnitude every integer is a double. A larger one keeps its 53 leading bits: \<open>e\<close>
  is the number of bits dropped, \<open>q\<close> the bits kept, \<open>r\<close> the bits dropped, and \<open>m\<close> the
  significand after rounding. A result of \<open>2 ^ 1024\<close> or more is an infinity.
\<close>

definition to_double :: "int \<Rightarrow> js_number" where
  "to_double n =
     (if \<bar>n\<bar> < 2 ^ 53 then Finite n
      else (let e = nat (bitlen \<bar>n\<bar> - 53);
                q = \<bar>n\<bar> div 2 ^ e;
                r = \<bar>n\<bar> mod 2 ^ e;
                m = (if 2 ^ e < 2 * r \<or> (2 * r = 2 ^ e \<and> odd q) then q + 1 else q)
            in if 2 ^ 1024 \<le> m * 2 ^ e then (if n < 0 then Minus_Infinity else Infinity)
               else Finite (sgn n * (m * 2 ^ e))))"

text \<open>\<open>x + k\<close> for an integer \<open>k\<close> (\<open>x - 1\<close> is \<open>x + (-1)\<close>): the exact sum, rounded to a
  double.\<close>

definition js_plus :: "js_number \<Rightarrow> int \<Rightarrow> js_number" where
  "js_plus x k =
     (case x of
        NaN \<Rightarrow> NaN
      | Infinity \<Rightarrow> Infinity
      | Minus_Infinity \<Rightarrow> Minus_Infinity
      | Finite n \<Rightarrow> to_double (n + k))"

datatype js_value = JUndefined | JNull | JBool bool | JNumber js_number | JString js_string

datatype js_error = TypeError

definition ascii :: "string \<Rightarrow> js_string" where
  "ascii s = map (\<lambda>c. of_nat (of_char c)) s"

definition truthy :: "js_value \<Rightarrow> bool" where
  "truthy v =
     (case v of
        JUndefined \<Rightarrow> False
      | JNull \<Rightarrow> False
      | JBool b \<Rightarrow> b
      | JNumber NaN \<Rightarrow> False
      | JNumber Infinity \<Rightarrow> True
      | JNumber Minus_Infinity \<Rightarrow> True
      | JNumber (Finite n) \<Rightarrow> n \<noteq> 0
      | JString s \<Rightarrow> s \<noteq> [])"

text \<open>\<open>a || b\<close> is \<open>a\<close> when \<open>a\<close> is truthy and \<open>b\<close> otherwise.\<close>

definition js_or :: "js_value \<Rightarrow> js_value \<Rightarrow> js_value" where
  "js_or a b = (if truthy a then a else b)"

text \<open>\<open>n || d\<close> for a number \<open>n\<close> and a non-zero integer literal \<open>d\<close>: \<open>NaN\<close> and zero
  give way to \<open>d\<close>.\<close>

definition number_or :: "js_number \<Rightarrow> int \<Rightarrow> js_number" where
  "number_or n d =
     (case n of
        NaN \<Rightarrow> Finite d
      | Infinity \<Rightarrow> Infinity
      | Minus_Infinity \<Rightarrow> Minus_Infinity
      | Finite k \<Rightarrow> if k = 0 then Finite d else Finite k)"

text \<open>\<open>n < k\<close> and \<open>n >= k\<close> for an integer \<open>k\<close>; both are false for \<open>NaN\<close>.\<close>

definition less_than :: "js_number \<Rightarrow> int \<Rightarrow> bool" where
  "less_than n k =
     (case n of NaN \<Rightarrow> False | Infinity \<Rightarrow> False | Minus_Infinity \<Rightarrow> True | Finite m \<Rightarrow> m < k)"

definition at_least :: "js_number \<Rightarrow> int \<Rightarrow> bool" where
  "at_least n k =
     (case n of NaN \<Rightarrow> False | Infinity \<Rightarrow> True | Minus_Infinity \<Rightarrow> False | Finite m \<Rightarrow> k \<le> m)"

subsection \<open>Requests and the page\<close>

record ajax_request =
  url :: string
  http_method :: string
  data :: "(string \<times> js_value) list"

text \<open>The script is served as a static file, so the URL constants are the template tags
  as written.\<close>

definition CART_COUNT_URL :: string where
  \<open>CART_COUNT_URL = ''{% url "cart:get_cart_count" %}''\<close>

definition ADD_TO_CART_URL :: string where
  \<open>ADD_TO_CART_URL = ''{% url "cart:add_to_cart" %}''\<close>

definition UPDATE_CART_URL :: string where
  \<open>UPDATE_CART_URL = ''{% url "cart:update_item_quantity" %}''\<close>

definition REMOVE_FROM_CART_URL :: string where
  \<open>REMOVE_FROM_CART_URL = ''{% url "cart:remove_item" %}''\<close>

definition WISHLIST_URL :: string where
  \<open>WISHLIST_URL = ''{% url "accounts:add_to_wishlist" %}''\<close>

definition COMPARE_URL :: string where
  \<open>COMPARE_URL = ''{% url "accounts:add_to_compare" %}''\<close>

text \<open>
  \<open>CSRF_TOKEN\<close> is read once, when the script loads, from the \<open>content\<close> attribute of
  the page's \<open>csrf-token\<close> meta tag; without the tag it is \<open>undefined\<close>.
\<close>

definition CSRF_TOKEN :: "js_string option \<Rightarrow> js_value" where
  "CSRF_TOKEN meta_content = (case meta_content of None \<Rightarrow> JUndefined | Some s \<Rightarrow> JString s)"

record element =
  el_disabled :: bool
  el_classes :: "string list"
  el_html :: js_string

definition addClass :: "string \<Rightarrow> element \<Rightarrow> element" where
  "addClass c el =
     el\<lparr>el_classes := (if c \<in> set (el_classes el) then el_classes el else el_classes el @ [c])\<rparr>"

definition removeClass :: "string \<Rightarrow> element \<Rightarrow> element" where
  "removeClass c el = el\<lparr>el_classes := filter (\<lambda>d. d \<noteq> c) (el_classes el)\<rparr>"

text \<open>
  The texts of the notifications are Russian literals of the source, named here by what
  they say; \<open>Notice_text\<close> is a text taken from the server's response.
\<close>

datatype notice =
  Notice_added_to_cart
| Notice_add_failed
| Notice_add_error
| Notice_text js_value

datatype deferred = Fade_out notice | Reset_add_button js_string

text \<open>
  The part of the browser's state that the handlers below change: the button that was
  clicked, whether the suggestion container has been hidden, the notifications shown, the
  requests sent with \<open>$.ajax\<close>, and the callbacks handed to \<open>setTimeout\<close> with their delay.
\<close>

record page =
  button :: element
  suggestions_hidden :: bool
  notifications :: "(notice \<times> string) list"
  requests :: "ajax_request list"
  timeouts :: "(nat \<times> deferred) list"

definition ajax :: "ajax_request \<Rightarrow> page \<Rightarrow> page" where
  "ajax r pg = pg\<lparr>requests := requests pg @ [r]\<rparr>"

definition showNotification :: "notice \<Rightarrow> string \<Rightarrow> page \<Rightarrow> page" where
  "showNotification message type pg =
     pg\<lparr>notifications := notifications pg @ [(message, type)],
        timeouts := timeouts pg @ [(5000, Fade_out message)]\<rparr>"

definition spinner_markup :: js_string where
  \<open>spinner_markup = ascii ''<div class="spinner"></div>''\<close>

text \<open>The check mark and the word for "added", nine Cyrillic letters.\<close>

definition added_markup :: js_string where
  \<open>added_markup =
     ascii ''<i class="fas fa-check"></i> '' @
     [0x414, 0x43E, 0x431, 0x430, 0x432, 0x43B, 0x435, 0x43D, 0x43E]\<close>

definition showSpinner :: "element \<Rightarrow> element" where
  "showSpinner el = el\<lparr>el_html := spinner_markup\<rparr>"

definition updateCartCount :: "page \<Rightarrow> page" where
  "updateCartCount pg = ajax \<lparr>url = CART_COUNT_URL, http_method = ''GET'', data = []\<rparr> pg"

subsection \<open>handleAddToCart\<close>

text \<open>What the handler reads from the clicked button: its own \<open>product-id\<close> and
  \<open>quantity\<close> data, and the \<open>product-id\<close> of the closest element that has one.\<close>

record add_click =
  own_product_id :: js_value
  closest_product_id :: js_value
  data_quantity :: js_value

text \<open>The settings object that the handler passes to \<open>$.ajax\<close>, without its callbacks.\<close>

definition add_to_cart_request :: "js_string option \<Rightarrow> js_value \<Rightarrow> js_value \<Rightarrow> ajax_request" where
  "add_to_cart_request meta_content productId quantity =
     \<lparr>url = ADD_TO_CART_URL, http_method = ''POST'',
      data = [(''product_id'', productId), (''quantity'', quantity),
              (''csrfmiddlewaretoken'', CSRF_TOKEN meta_content)]\<rparr>"

text \<open>The handler up to the return of \<open>$.ajax\<close>: the button is disabled, marked as
  loading and shows the spinner, and the request is sent.\<close>

definition handleAddToCart :: "js_string option \<Rightarrow> add_click \<Rightarrow> page \<Rightarrow> page" where
  "handleAddToCart meta_content click pg =
     (let productId = js_or (own_product_id click) (closest_product_id click);
          quantity = js_or (data_quantity click) (JNumber (Finite 1))
      in ajax (add_to_cart_request meta_content productId quantity)
              (pg\<lparr>button := showSpinner (addClass ''loading'' ((button pg)\<lparr>el_disabled := True\<rparr>))\<rparr>))"

text \<open>
  What the \<open>success\<close> callback is called with: \<open>undefined\<close> for a reply without a body
  (status 204), \<open>null\<close> for a body that is the JSON text \<open>null\<close>, and otherwise a value
  whose fields can be read, an object or a primitive; \<open>ajax_response\<close> holds the two
  fields the callback reads, a field the value lacks being \<open>undefined\<close>. A request ends
  with a reply (the \<open>success\<close> callback) or without one (the \<open>error\<close> callback).
\<close>

record ajax_response =
  resp_success :: js_value
  resp_message :: js_value

datatype callback_argument = Arg_undefined | Arg_null | Arg_value ajax_response

datatype ajax_outcome = Response callback_argument | Transport_error

text \<open>
  The two callbacks; \<open>originalText\<close> is the button's markup as the handler saved it
  before the request. The \<open>success\<close> callback starts by reading \<open>response.success\<close>,
  which throws a \<open>TypeError\<close> when the response is \<open>undefined\<close> or \<open>null\<close>; nothing
  has been changed by then.
\<close>

definition add_to_cart_success ::
  "js_string \<Rightarrow> callback_argument \<Rightarrow> page \<Rightarrow> js_error + page" where
  "add_to_cart_success originalText response pg =
     (case response of
        Arg_undefined \<Rightarrow> Inl TypeError
      | Arg_null \<Rightarrow> Inl TypeError
      | Arg_value r \<Rightarrow>
          (if truthy (resp_success r)
           then (let pg1 = updateCartCount (showNotification Notice_added_to_cart ''success'' pg);
                     b = addClass ''btn-success'' (removeClass ''btn-primary'' (button pg1))
                 in Inr (pg1\<lparr>button := b\<lparr>el_html := added_markup\<rparr>,
                             timeouts := timeouts pg1 @ [(2000, Reset_add_button originalText)]\<rparr>))
           else (let pg1 = showNotification
                             (if truthy (resp_message r) then Notice_text (resp_message r)
                              else Notice_add_failed)
                             ''error'' pg
                 in Inr (pg1\<lparr>button :=
                               (removeClass ''loading'' (button pg1))\<lparr>el_disabled := False,
                                                                       el_html := originalText\<rparr>\<rparr>))))"

definition add_to_cart_error :: "js_string \<Rightarrow> page \<Rightarrow> page" where
  "add_to_cart_error originalText pg =
     (let pg1 = showNotification Notice_add_error ''error'' pg
      in pg1\<lparr>button :=
               (removeClass ''loading'' (button pg1))\<lparr>el_disabled := False,
                                                       el_html := originalText\<rparr>\<rparr>)"

text \<open>The failures that the handler reports: a request that ended without a reply, or
  with a readable value whose \<open>success\<close> field is not truthy.\<close>

definition failure_reported :: "ajax_outcome \<Rightarrow> bool" where
  "failure_reported outcome =
     (case outcome of
        Response Arg_undefined \<Rightarrow> False
      | Response Arg_null \<Rightarrow> False
      | Response (Arg_value r) \<Rightarrow> \<not> truthy (resp_success r)
      | Transport_error \<Rightarrow> True)"

text \<open>
  A click followed by the end of its request: the page when the callback has ended,
  and the error it has thrown, if any. A callback that throws leaves the page as it was
  when the request was in flight.
\<close>

definition add_to_cart_settled ::
  "js_string option \<Rightarrow> add_click \<Rightarrow> ajax_outcome \<Rightarrow> page \<Rightarrow> page \<times> js_error option" where
  "add_to_cart_settled meta_content click outcome pg =
     (let originalText = el_html (button pg);
          in_flight = handleAddToCart meta_content click pg
      in case outcome of
           Response response \<Rightarrow>
             (case add_to_cart_success originalText response in_flight of
                Inl e \<Rightarrow> (in_flight, Some e)
              | Inr settled \<Rightarrow> (settled, None))
         | Transport_error \<Rightarrow> (add_to_cart_error originalText in_flight, None))"

subsection \<open>Wish list and comparison\<close>

text \<open>Both handlers read the \<open>product-id\<close> data of the clicked button and send one
  request; their callbacks change the button's look and show a notification.\<close>

definition wishlist_request :: "js_string option \<Rightarrow> js_value \<Rightarrow> ajax_request" where
  "wishlist_request meta_content productId =
     \<lparr>url = WISHLIST_URL, http_method = ''POST'',
      data = [(''product_id'', productId), (''csrfmiddlewaretoken'', CSRF_TOKEN meta_content)]\<rparr>"


definition compare_request :: "js_string option \<Rightarrow> js_value \<Rightarrow> ajax_request" where
  "compare_request meta_content productId =
     \<lparr>url = COMPARE_URL, http_method = ''POST'',
      data = [(''product_id'', productId), (''csrfmiddlewaretoken'', CSRF_TOKEN meta_content)]\<rparr>"


subsection \<open>Quantities in the cart\<close>

definition update_quantity_request ::
  "js_string option \<Rightarrow> js_value \<Rightarrow> js_number \<Rightarrow> ajax_request" where
  "update_quantity_request meta_content itemId quantity =
     \<lparr>url = UPDATE_CART_URL, http_method = ''POST'',
      data = [(''item_id'', itemId), (''quantity'', JNumber quantity),
              (''csrfmiddlewaretoken'', CSRF_TOKEN meta_content)]\<rparr>"

definition updateCartItemQuantity ::
  "js_string option \<Rightarrow> js_value \<Rightarrow> js_number \<Rightarrow> page \<Rightarrow> page" where
  "updateCartItemQuantity meta_content itemId quantity pg =
     ajax (update_quantity_request meta_content itemId quantity) pg"

definition remove_item_request :: "js_string option \<Rightarrow> js_value \<Rightarrow> ajax_request" where
  "remove_item_request meta_content itemId =
     \<lparr>url = REMOVE_FROM_CART_URL, http_method = ''POST'',
      data = [(''item_id'', itemId), (''csrfmiddlewaretoken'', CSRF_TOKEN meta_content)]\<rparr>"

text \<open>\<open>removeFromCart\<close> asks first; \<open>confirmed\<close> is the user's answer to the \<open>confirm\<close>
  dialog, and without it nothing is sent.\<close>

definition removeFromCart :: "js_string option \<Rightarrow> bool \<Rightarrow> js_value \<Rightarrow> page \<Rightarrow> page" where
  "removeFromCart meta_content confirmed itemId pg =
     (if confirmed then ajax (remove_item_request meta_content itemId) pg else pg)"

text \<open>
  What \<open>handleQuantityChange\<close> reads: the \<open>item-id\<close> and \<open>product-id\<close> data of the
  enclosing cart line, whether the button has the class \<open>increase-btn\<close>, and the result
  of \<open>parseInt\<close> on the button's \<open>current-qty\<close> data.
\<close>

record quantity_click =
  qc_item_id :: js_value
  qc_product_id :: js_value
  qc_is_increase :: bool
  qc_current_qty :: js_number

definition handleQuantityChange ::
  "js_string option \<Rightarrow> bool \<Rightarrow> quantity_click \<Rightarrow> page \<Rightarrow> page" where
  "handleQuantityChange meta_content confirmed click pg =
     (let itemId = js_or (qc_item_id click) (qc_product_id click);
          currentQuantity = number_or (qc_current_qty click) 1;
          newQuantity = (if qc_is_increase click then js_plus currentQuantity 1
                         else js_plus currentQuantity (- 1))
      in if less_than newQuantity 1 then removeFromCart meta_content confirmed itemId pg
         else updateCartItemQuantity meta_content itemId newQuantity pg)"

text \<open>\<open>handleQuantityInputChange\<close> reads the same ids and the result of \<open>parseInt\<close> on
  the text of the input.\<close>

record quantity_input =
  qi_item_id :: js_value
  qi_product_id :: js_value
  qi_parsed :: js_number

definition handleQuantityInputChange ::
  "js_string option \<Rightarrow> bool \<Rightarrow> quantity_input \<Rightarrow> page \<Rightarrow> page" where
  "handleQuantityInputChange meta_content confirmed input pg =
     (let itemId = js_or (qi_item_id input) (qi_product_id input);
          newQuantity = qi_parsed input
      in if less_than newQuantity 1 then removeFromCart meta_content confirmed itemId pg
         else updateCartItemQuantity meta_content itemId newQuantity pg)"

subsection \<open>The five operations that change data on the server\<close>





subsection \<open>Search suggestions\<close>

text \<open>
  The script is in strict mode. \<open>handleSearchInput\<close> reads the text through
  \<open>$(this).val()\<close>: with \<open>this\<close> an input element that is the element's text, and with
  \<open>this\<close> undefined the jQuery set is empty and \<open>val()\<close> is \<open>undefined\<close>, so that
  reading \<open>query.length\<close> throws a \<open>TypeError\<close>. The handler does not use its event
  argument.
\<close>

record input_element =
  in_value :: js_string

datatype this_binding = This_undefined | This_element input_element

definition jq_val :: "this_binding \<Rightarrow> js_string option" where
  "jq_val this = (case this of This_undefined \<Rightarrow> None | This_element el \<Rightarrow> Some (in_value el))"

definition handleSearchInput :: "this_binding \<Rightarrow> 'e \<Rightarrow> page \<Rightarrow> js_error + page" where
  "handleSearchInput this e pg =
     (case jq_val this of
        None \<Rightarrow> Inl TypeError
      | Some query \<Rightarrow>
          (if length query < 2 then Inr (pg\<lparr>suggestions_hidden := True\<rparr>)
           else Inr (ajax \<lparr>url = ''/catalog/search/suggestions/'', http_method = ''GET'',
                           data = [(''q'', JString query)]\<rparr> pg)))"

text \<open>
  \<open>debounce(func, wait)\<close> returns \<open>executedFunction\<close>, which replaces the pending timer
  by one for \<open>later\<close>, keeping the arguments of the call; \<open>timeout\<close> is the pending
  timer, given by the arguments it will pass on. When the timer fires, \<open>later\<close> calls
  \<open>func(...args)\<close>: a plain call, in which \<open>this\<close> is undefined.
\<close>

definition executedFunction :: "this_binding \<Rightarrow> 'e \<Rightarrow> 'e option \<Rightarrow> 'e option" where
  "executedFunction this args timeout = Some args"

definition later ::
  "(this_binding \<Rightarrow> 'e \<Rightarrow> page \<Rightarrow> js_error + page) \<Rightarrow> 'e \<Rightarrow> page \<Rightarrow> js_error + page" where
  "later func args pg = func This_undefined args pg"

text \<open>
  The binding \<open>$('#search-input').on('input', debounce(handleSearchInput, 300))\<close>: an
  input event on the search field (\<open>this\<close> is the field), then the timer firing after
  300 ms without another event.
\<close>

definition search_input_event :: "input_element \<Rightarrow> 'e \<Rightarrow> page \<Rightarrow> js_error + page" where
  "search_input_event field e pg =
     (case executedFunction (This_element field) e None of
        None \<Rightarrow> Inr pg
      | Some args \<Rightarrow> later handleSearchInput args pg)"

text \<open>Example inputs: the minus and the plus button of cart line 5 at quantity 1, the
  texts \<open>3\<close> and \<open>0\<close> typed into the quantity field of that line, a click on the
  add-to-cart button of product 42, and the search field holding \<open>ab\<close>.\<close>

definition minus_at_one :: quantity_click where
  "minus_at_one =
     \<lparr>qc_item_id = JNumber (Finite 5), qc_product_id = JUndefined, qc_is_increase = False,
      qc_current_qty = Finite 1\<rparr>"

definition plus_at_one :: quantity_click where
  "plus_at_one =
     \<lparr>qc_item_id = JNumber (Finite 5), qc_product_id = JUndefined, qc_is_increase = True,
      qc_current_qty = Finite 1\<rparr>"

definition typed_three :: quantity_input where
  "typed_three =
     \<lparr>qi_item_id = JNumber (Finite 5), qi_product_id = JUndefined, qi_parsed = Finite 3\<rparr>"

definition typed_zero :: quantity_input where
  "typed_zero =
     \<lparr>qi_item_id = JNumber (Finite 5), qi_product_id = JUndefined, qi_parsed = Finite 0\<rparr>"


definition field_ab :: input_element where
  "field_ab = \<lparr>in_value = ascii ''ab''\<rparr>"

definition blank_page :: page where
  "blank_page =
     \<lparr>button = \<lparr>el_disabled = False, el_classes = [''btn'', ''btn-primary''], el_html = ascii ''Buy''\<rparr>,
      suggestions_hidden = False, notifications = [], requests = [], timeouts = []\<rparr>"

section \<open>Properties of the stored routines\<close>

lemma floor_rat_numeral:
  "\<lfloor>(numeral a / numeral b :: rat)\<rfloor> = numeral a div numeral b"
  using floor_divide_of_int_eq [of "numeral a" "numeral b", where ?'a = rat] by simp

lemma floor_rat_one_numeral:
  "\<lfloor>(1 / numeral b :: rat)\<rfloor> = 1 div numeral b"
  using floor_divide_of_int_eq [of 1 "numeral b", where ?'a = rat] by simp

lemma review_selected_any_product:
  "review_selected (Some i) r = rv_is_approved r"
  by (simp add: review_selected_def sql_eq_def sql_and_def is_true_def tinyint_def)

lemma review_selected_null:
  "review_selected None r = False"
  by (simp add: review_selected_def sql_eq_def sql_and_def is_true_def)

text \<open>
  What the procedure computes for a product id that is not NULL: the average and the
  count range over every approved row of \<open>catalog_review\<close>, whatever its product.
\<close>

lemma UpdateProductRating_Some:
  "UpdateProductRating (Some i) db =
     (case store_DECIMAL_3_2 (AVG (map rv_rating (filter rv_is_approved (catalog_review db)))) of
        Inl e \<Rightarrow> Inl e
      | Inr selected_avg \<Rightarrow>
          Inr (db\<lparr>catalog_product :=
                 map (\<lambda>p. if pr_id p = i
                           then p\<lparr>pr_rating := ROUND (case selected_avg of None \<Rightarrow> 0 | Some a \<Rightarrow> a) 2,
                                  pr_reviews_count := length (filter rv_is_approved (catalog_review db))\<rparr>
                           else p)
                     (catalog_product db)\<rparr>))"
proof -
  have sel: "review_selected (Some i) = rv_is_approved"
    by (rule ext) (simp add: review_selected_any_product)
  show ?thesis
    by (simp add: UpdateProductRating_def sel sql_eq_def is_true_def Let_def split: sum.split)
qed

text \<open>
  Claim C1 says that the recompute gives a product the rounded average and the count of
  the approved reviews of that product, and that reviews of other products have no
  influence. The code does otherwise: in \<open>shop_7_8\<close> product 7 has the approved reviews
  4, 5 and 3 (average 4.00, count 3), and the approved review of product 8, rated 1, enters
  both results: product 7 is given the rating 3.25 and the count 4.
\<close>

theorem UpdateProductRating_reads_other_products:
  "UpdateProductRating (Some 7) shop_7_8 =
     Inr (shop_7_8\<lparr>catalog_product :=
                     [(phone 7)\<lparr>pr_rating := 13 / 4, pr_reviews_count := 4\<rparr>, phone 8]\<rparr>)"
  by (simp add: UpdateProductRating_Some shop_7_8_def empty_db_def review_def phone_def
      store_DECIMAL_3_2_def AVG_def ROUND_def floor_rat_numeral)

text \<open>
  Claim C2 says that a product with no approved review gets the rating 0.00 and the count
  0. The code does otherwise: in \<open>shop_unreviewed_7\<close> product 7 has no review at all, and
  the recompute gives it the rating 5.00 and the count 1 of the review of product 8.
\<close>

theorem UpdateProductRating_unreviewed_product:
  "UpdateProductRating (Some 7) shop_unreviewed_7 =
     Inr (shop_unreviewed_7\<lparr>catalog_product :=
                              [(phone 7)\<lparr>pr_rating := 5, pr_reviews_count := 1\<rparr>, phone 8]\<rparr>)"
  by (simp add: UpdateProductRating_Some shop_unreviewed_7_def empty_db_def review_def phone_def
      store_DECIMAL_3_2_def AVG_def ROUND_def floor_rat_numeral)

text \<open>
  Where the table holds approved reviews of one product only, the results are the ones
  the specification names: 4.00 and 3 for the ratings 5, 4 and 3, and 0.00 and 0 for an
  empty table.
\<close>

lemma UpdateProductRating_single_product:
  "UpdateProductRating (Some 7)
     (empty_db\<lparr>catalog_product := [phone 7],
               catalog_review := [review 7 5, review 7 4, review 7 3]\<rparr>) =
   Inr (empty_db\<lparr>catalog_product := [(phone 7)\<lparr>pr_rating := 4, pr_reviews_count := 3\<rparr>],
                 catalog_review := [review 7 5, review 7 4, review 7 3]\<rparr>)"
  by (simp add: UpdateProductRating_Some empty_db_def review_def phone_def
      store_DECIMAL_3_2_def AVG_def ROUND_def floor_rat_numeral)

lemma UpdateProductRating_no_reviews:
  "UpdateProductRating (Some 7) (empty_db\<lparr>catalog_product := [(phone 7)\<lparr>pr_rating := 3\<rparr>]\<rparr>) =
   Inr (empty_db\<lparr>catalog_product := [(phone 7)\<lparr>pr_rating := 0, pr_reviews_count := 0\<rparr>]\<rparr>)"
  by (simp add: UpdateProductRating_Some empty_db_def phone_def
      store_DECIMAL_3_2_def AVG_def ROUND_def floor_rat_one_numeral)

text \<open>
  Claim C4: the recompute is idempotent. When a call of the procedure succeeds, a second
  call with the same argument on the resulting database succeeds and changes nothing:
  the reviews are as before, so both values are computed again as they were, and they
  are written over themselves.
\<close>

theorem UpdateProductRating_idempotent:
  "UpdateProductRating product_id db = Inr db' \<Longrightarrow> UpdateProductRating product_id db' = Inr db'"
  by (auto simp: UpdateProductRating_def Let_def o_def split: sum.splits intro!: map_idI)

theorem UpdateProductRating_idempotent_witness:
  "UpdateProductRating (Some 7) shop_7_8 =
     Inr (shop_7_8\<lparr>catalog_product :=
                     [(phone 7)\<lparr>pr_rating := 13 / 4, pr_reviews_count := 4\<rparr>, phone 8]\<rparr>) \<and>
   UpdateProductRating (Some 7)
     (shop_7_8\<lparr>catalog_product :=
                 [(phone 7)\<lparr>pr_rating := 13 / 4, pr_reviews_count := 4\<rparr>, phone 8]\<rparr>) =
     Inr (shop_7_8\<lparr>catalog_product :=
                     [(phone 7)\<lparr>pr_rating := 13 / 4, pr_reviews_count := 4\<rparr>, phone 8]\<rparr>)"
proof -
  have first:
    "UpdateProductRating (Some 7) shop_7_8 =
       Inr (shop_7_8\<lparr>catalog_product :=
                       [(phone 7)\<lparr>pr_rating := 13 / 4, pr_reviews_count := 4\<rparr>, phone 8]\<rparr>)"
    by (simp add: UpdateProductRating_Some shop_7_8_def empty_db_def review_def phone_def
        store_DECIMAL_3_2_def AVG_def ROUND_def floor_rat_numeral)
  from first UpdateProductRating_idempotent [OF first] show ?thesis
    by (rule conjI)
qed

text \<open>A failed call leaves the database as it was, so nothing is to be repeated.\<close>

lemma UpdateProductRating_reads_reviews_only:
  "UpdateProductRating product_id db = Inr db' \<Longrightarrow>
     catalog_review db' = catalog_review db \<and>
     map pr_id (catalog_product db') = map pr_id (catalog_product db)"
  by (auto simp: UpdateProductRating_def Let_def o_def split: sum.splits)

text \<open>
  Claim C7 says that \<open>total_sold\<close> counts only the quantities of order items whose order
  was created within the last \<open>days_back\<close> days. The code does otherwise: the one order of
  \<open>shop_old_order\<close> was created 100 days before \<open>now\<close>, the report is asked for the last
  30 days, and the five pieces of that order are counted.
\<close>

theorem GetPopularProducts_counts_old_orders:
  "GetPopularProducts (100 * 86400) 30 10 shop_old_order =
     Inr [\<lparr>res_id = 1, res_name = ''phone'', res_slug = ''phone'', res_price = 100,
           res_old_price = None, res_rating = 0, res_reviews_count = 0,
           res_category_name = ''phones'', res_brand_name = ''brand'',
           res_orders_count = 1, res_total_sold = Some 5\<rparr>]"
  by (simp add: GetPopularProducts_def popular_from_def shop_old_order_def empty_db_def phone_def
      left_join_def sql_and_def sql_eq_def is_true_def DATE_SUB_days_def tinyint_def
      popular_groups_def popular_group_def List.map_filter_simps COUNT_def SUM_agg_def
      order_by_total_sold_desc_def)

lemma order_status_change_log_fold:
  "orders_orderlog
     (fold (\<lambda>OLD d. if condition OLD
                     then order_status_change_log collation_key now OLD (assignments OLD) d
                     else d)
           rows d0) =
   orders_orderlog d0 @
     map (\<lambda>OLD. \<lparr>log_order_id = ord_id (assignments OLD), log_old_status = ord_status OLD,
                  log_new_status = ord_status (assignments OLD),
                  log_changed_by = ord_user_id (assignments OLD), log_changed_at = now\<rparr>)
         (filter (\<lambda>OLD. condition OLD \<and>
                         collation_key (ord_status OLD) \<noteq>
                           collation_key (ord_status (assignments OLD)))
                 rows)"
  by (induction rows arbitrary: d0) (simp_all add: order_status_change_log_def)

text \<open>
  Claim C10, amended. An update of \<open>orders_order\<close> adds to \<open>orders_orderlog\<close> one row for
  each updated row whose old and new status differ for \<open>!=\<close>, that is, have different
  sort keys under the column's collation, and no other row. The row added records the
  order's id, the old and the new status, the order's user and the time of the
  statement. An updated row whose statuses have the same key, among them every row
  whose status is left as it was, adds nothing.
\<close>

theorem order_status_change_logged:
  "orders_orderlog (UPDATE_orders_order collation_key now condition assignments db) =
     orders_orderlog db @
       map (\<lambda>OLD. \<lparr>log_order_id = ord_id (assignments OLD), log_old_status = ord_status OLD,
                    log_new_status = ord_status (assignments OLD),
                    log_changed_by = ord_user_id (assignments OLD), log_changed_at = now\<rparr>)
           (filter (\<lambda>OLD. condition OLD \<and>
                           collation_key (ord_status OLD) \<noteq>
                             collation_key (ord_status (assignments OLD)))
                   (orders_order db))"
  by (simp add: UPDATE_orders_order_def order_status_change_log_fold)

text \<open>
  Claim C10 as stated fails where the update changes the status in letter case only:
  the status of order 1 goes from \<open>pending\<close> to \<open>Pending\<close>, a change of the column,
  and no row is added to the log.
\<close>

theorem case_change_is_not_logged:
  "map ord_status (orders_order one_pending_order) = [''pending''] \<and>
   map ord_status
     (orders_order
        (UPDATE_orders_order letters_ci_key 100 id_is_1 set_status_Pending one_pending_order)) =
     [''Pending''] \<and>
   ''pending'' \<noteq> ''Pending'' \<and>
   orders_orderlog
     (UPDATE_orders_order letters_ci_key 100 id_is_1 set_status_Pending one_pending_order) = []"
  by (simp add: UPDATE_orders_order_def order_status_change_log_def one_pending_order_def
      empty_db_def id_is_1_def set_status_Pending_def letters_ci_key_def fold_case_def)

text \<open>A change to another word is logged, and a status left as it was is not.\<close>

lemma status_change_is_logged:
  "orders_orderlog
     (UPDATE_orders_order letters_ci_key 100 id_is_1 set_status_shipped one_pending_order) =
   [\<lparr>log_order_id = 1, log_old_status = ''pending'', log_new_status = ''shipped'',
     log_changed_by = Some 3, log_changed_at = 100\<rparr>]"
  by (simp add: UPDATE_orders_order_def order_status_change_log_def one_pending_order_def
      empty_db_def id_is_1_def set_status_shipped_def letters_ci_key_def fold_case_def)

lemma unchanged_status_is_not_logged:
  assumes "\<And>r. r \<in> set (orders_order db) \<Longrightarrow> condition r \<Longrightarrow>
             ord_status (assignments r) = ord_status r"
  shows "orders_orderlog (UPDATE_orders_order collation_key now condition assignments db) =
         orders_orderlog db"
proof -
  have "filter (\<lambda>OLD. condition OLD \<and>
                      collation_key (ord_status OLD) \<noteq>
                        collation_key (ord_status (assignments OLD)))
               (orders_order db) = []"
    using assms by (auto simp: filter_empty_conv)
  then show ?thesis
    by (simp add: UPDATE_orders_order_def order_status_change_log_fold)
qed

text \<open>Whatever the window and the time, the old order of \<open>shop_old_order\<close> is counted.\<close>

lemma GetPopularProducts_window_ignored:
  "map res_total_sold
     (case GetPopularProducts now days_back 10 shop_old_order of Inl e \<Rightarrow> [] | Inr rows \<Rightarrow> rows) =
   [Some 5]"
  by (simp add: GetPopularProducts_def popular_from_def shop_old_order_def empty_db_def phone_def
      left_join_def sql_and_def sql_eq_def is_true_def tinyint_def
      popular_groups_def popular_group_def List.map_filter_simps COUNT_def SUM_agg_def
      order_by_total_sold_desc_def)

lemma GetPopularProducts_limit:
  "GetPopularProducts now days_back limit_count db = Inr rows \<Longrightarrow> int (length rows) \<le> limit_count"
  by (auto simp: GetPopularProducts_def split: if_splits)

lemma set_insert_desc: "set (insert_desc r rs) = insert r (set rs)"
  by (induction rs) auto

lemma set_order_by_total_sold_desc: "set (order_by_total_sold_desc rows) = set rows"
  unfolding order_by_total_sold_desc_def
  by (induction rows) (simp_all add: set_insert_desc)

lemma sold_before_total: "sold_before a b \<or> sold_before b a"
  by (auto simp: sold_before_def split: option.splits)

lemma sold_before_trans: "sold_before a b \<Longrightarrow> sold_before b c \<Longrightarrow> sold_before a c"
  by (auto simp: sold_before_def split: option.splits)

lemma sorted_insert_desc:
  "sorted_wrt (\<lambda>a b. sold_before (res_total_sold a) (res_total_sold b)) rs \<Longrightarrow>
   sorted_wrt (\<lambda>a b. sold_before (res_total_sold a) (res_total_sold b)) (insert_desc r rs)"
proof (induction rs)
  case Nil
  then show ?case by simp
next
  case (Cons s ss)
  show ?case
  proof (cases "sold_before (res_total_sold r) (res_total_sold s)")
    case True
    with Cons.prems show ?thesis
      by (auto intro: sold_before_trans)
  next
    case False
    then have "sold_before (res_total_sold s) (res_total_sold r)"
      using sold_before_total by blast
    with False Cons show ?thesis
      by (auto simp: set_insert_desc)
  qed
qed

lemma sorted_order_by_total_sold_desc:
  "sorted_wrt (\<lambda>a b. sold_before (res_total_sold a) (res_total_sold b)) (order_by_total_sold_desc rows)"
  unfolding order_by_total_sold_desc_def
  by (induction rows) (simp_all add: sorted_insert_desc)

lemma popular_group_id:
  "popular_group rows = Some r \<Longrightarrow> \<exists>p c b oi od. (p, c, b, oi, od) \<in> set rows \<and> res_id r = pr_id p"
  by (cases rows) (fastforce simp: popular_group_def)+

lemma popular_groups_id:
  assumes "r \<in> set (popular_groups rows)"
  shows "\<exists>p c b oi od. (p, c, b, oi, od) \<in> set rows \<and> res_id r = pr_id p"
proof -
  from assms obtain k where "popular_group (filter (\<lambda>(p, c, b, oi, od). pr_id p = k) rows) = Some r"
    by (auto simp: popular_groups_def List.map_filter_def)
  from popular_group_id [OF this] show ?thesis
    by fastforce
qed

lemma popular_from_product:
  "(p, c, b, oi, od) \<in> set (popular_from now days_back db) \<Longrightarrow> p \<in> set (catalog_product db)"
  by (auto simp: popular_from_def)

text \<open>
  The other parts of the report are as described: every row is for an active product
  of the table, and the rows come in descending order of \<open>total_sold\<close>, NULL last.
\<close>

lemma GetPopularProducts_active_sorted:
  assumes "GetPopularProducts now days_back limit_count db = Inr rows"
  shows "(\<forall>r \<in> set rows. \<exists>p \<in> set (catalog_product db). pr_is_active p \<and> pr_id p = res_id r) \<and>
         sorted_wrt (\<lambda>a b. sold_before (res_total_sold a) (res_total_sold b)) rows"
proof -
  let ?kept = "filter (\<lambda>(p, c, b, oi, od). tinyint (pr_is_active p) = 1) (popular_from now days_back db)"
  from assms have rows: "rows = take (nat limit_count) (order_by_total_sold_desc (popular_groups ?kept))"
    by (auto simp: GetPopularProducts_def split: if_splits)
  have "\<exists>p \<in> set (catalog_product db). pr_is_active p \<and> pr_id p = res_id r" if "r \<in> set rows" for r
  proof -
    from that rows have "r \<in> set (popular_groups ?kept)"
      using set_order_by_total_sold_desc by (metis in_set_takeD)
    from popular_groups_id [OF this] obtain p c b oi od
      where "(p, c, b, oi, od) \<in> set ?kept" and "res_id r = pr_id p"
      by blast
    then show ?thesis
      by (auto simp: tinyint_def dest: popular_from_product split: if_splits)
  qed
  moreover have "sorted_wrt (\<lambda>a b. sold_before (res_total_sold a) (res_total_sold b)) rows"
    unfolding rows by (rule sorted_wrt_take) (rule sorted_order_by_total_sold_desc)
  ultimately show ?thesis
    by blast
qed

lemma at_most_one_match:
  "distinct (map f xs) \<Longrightarrow> length (filter (\<lambda>x. f x = k \<and> Q x) xs) \<le> 1"
  by (induction xs) (auto simp: filter_empty_conv image_iff)

lemma left_join_single:
  "length ms \<le> 1 \<Longrightarrow> \<exists>m. left_join ms = [m]"
  by (cases ms) (auto simp: left_join_def)

lemma order_join_single:
  assumes "distinct (map ord_id (orders_order db))"
  shows "\<exists>m. left_join
               (filter (\<lambda>od. is_true (sql_and (sql_eq (map_option oi_order_id oi) (Some (ord_id od)))
                                              (Some (DATE_SUB_days now days_back \<le> ord_created_at od))))
                       (orders_order db)) = [m]"
proof (cases oi)
  case None
  then show ?thesis
    by (simp add: sql_eq_def sql_and_def is_true_def left_join_def)
next
  case (Some i)
  have cond: "(\<lambda>od. is_true (sql_and (sql_eq (map_option oi_order_id oi) (Some (ord_id od)))
                                              (Some (DATE_SUB_days now days_back \<le> ord_created_at od))))
        = (\<lambda>od. ord_id od = oi_order_id i \<and> DATE_SUB_days now days_back \<le> ord_created_at od)"
    using Some by (auto simp: sql_eq_def sql_and_def is_true_def)
  show ?thesis
    unfolding cond
    by (rule left_join_single [OF at_most_one_match [OF assms]])
qed

lemma popular_from_without_order:
  assumes "distinct (map ord_id (orders_order db))"
  shows "map without_order (popular_from now days_back db) =
     [(p, c, b, oi).
        p \<leftarrow> catalog_product db,
        c \<leftarrow> filter (\<lambda>c. pr_category_id p = cat_id c) (catalog_category db),
        b \<leftarrow> filter (\<lambda>b. pr_brand_id p = br_id b) (catalog_brand db),
        oi \<leftarrow> left_join (filter (\<lambda>i. pr_id p = oi_product_id i) (orders_orderitem db))]"
proof -
  have inner: "map (\<lambda>od. without_order (p, c, b, oi, od))
             (left_join
               (filter (\<lambda>od. is_true (sql_and (sql_eq (map_option oi_order_id oi) (Some (ord_id od)))
                                              (Some (DATE_SUB_days now days_back \<le> ord_created_at od))))
                       (orders_order db))) = [(p, c, b, oi)]" for p c b oi
    using order_join_single [OF assms, of oi now days_back]
    by (auto simp: without_order_def)
  show ?thesis
    unfolding popular_from_def
    by (simp add: map_concat o_def inner)
qed


lemma COUNT_without_order:
  "map (\<lambda>(p, c, b, oi, od). map_option f oi) rows =
   map (\<lambda>(p, c, b, oi). map_option f oi) (map without_order rows)"
  by (induction rows) (auto simp: without_order_def)

lemma popular_group_without_order:
  assumes "map without_order rows1 = map without_order rows2"
  shows "popular_group rows1 = popular_group rows2"
proof (cases rows1)
  case Nil
  with assms show ?thesis by simp
next
  case (Cons r1 rest1)
  with assms obtain r2 rest2 where rows2: "rows2 = r2 # rest2" and r: "without_order r1 = without_order r2"
    by (cases rows2) auto
  have agg: "map (\<lambda>(p, c, b, oi, od). map_option f oi) rows1 =
             map (\<lambda>(p, c, b, oi, od). map_option f oi) rows2" for f :: "orderitem_row \<Rightarrow> int"
    by (simp add: COUNT_without_order assms)
  obtain p1 c1 b1 oi1 od1 where r1: "r1 = (p1, c1, b1, oi1, od1)" by (cases r1)
  obtain p2 c2 b2 oi2 od2 where r2: "r2 = (p2, c2, b2, oi2, od2)" by (cases r2)
  from r r1 r2 have same: "p1 = p2" "c1 = c2" "b1 = b2"
    by (simp_all add: without_order_def)
  show ?thesis
    using agg [of oi_id] agg [of oi_quantity]
    by (simp add: popular_group_def Cons rows2 r1 r2 same)
qed

lemma filter_without_order:
  assumes "map without_order rows1 = map without_order rows2"
  shows "map without_order (filter (\<lambda>(p, c, b, oi, od). P p) rows1) =
         map without_order (filter (\<lambda>(p, c, b, oi, od). P p) rows2)"
proof -
  have "map without_order (filter (\<lambda>(p, c, b, oi, od). P p) rows) =
        filter (\<lambda>(p, c, b, oi). P p) (map without_order rows)" for rows
    by (induction rows) (auto simp: without_order_def)
  with assms show ?thesis by simp
qed

lemma keys_without_order:
  "map (\<lambda>(p, c, b, oi, od). pr_id p) rows = map (\<lambda>(p, c, b, oi). pr_id p) (map without_order rows)"
  by (induction rows) (auto simp: without_order_def)

lemma popular_groups_without_order:
  assumes "map without_order rows1 = map without_order rows2"
  shows "popular_groups rows1 = popular_groups rows2"
proof -
  have "popular_group (filter (\<lambda>(p, c, b, oi, od). pr_id p = k) rows1) =
        popular_group (filter (\<lambda>(p, c, b, oi, od). pr_id p = k) rows2)" for k
    by (rule popular_group_without_order) (rule filter_without_order [OF assms])
  then show ?thesis
    by (simp add: popular_groups_def keys_without_order assms)
qed

text \<open>
  With order ids that are unique, as a primary key is, the report does not depend on
  \<open>days_back\<close> (nor on the time of the call): the window never reaches the result.
\<close>

lemma GetPopularProducts_ignores_days_back:
  assumes "distinct (map ord_id (orders_order db))"
  shows "GetPopularProducts now days_back limit_count db =
         GetPopularProducts now' days_back' limit_count db"
proof -
  have "map without_order (popular_from now days_back db) =
        map without_order (popular_from now' days_back' db)"
    by (simp add: popular_from_without_order [OF assms])
  then have "popular_groups (filter (\<lambda>(p, c, b, oi, od). tinyint (pr_is_active p) = 1)
                                (popular_from now days_back db)) =
             popular_groups (filter (\<lambda>(p, c, b, oi, od). tinyint (pr_is_active p) = 1)
                                (popular_from now' days_back' db))"
    by (intro popular_groups_without_order filter_without_order)
  then show ?thesis
    by (simp add: GetPopularProducts_def)
qed

section \<open>Properties of the handlers\<close>

lemma js_plus_exact:
  "\<bar>n + k\<bar> < 2 ^ 53 \<Longrightarrow> js_plus (Finite n) k = Finite (n + k)"
  by (simp add: js_plus_def to_double_def)

text \<open>From \<open>2 ^ 53\<close> on the sum is rounded: \<open>2 ^ 53 + 1\<close> is \<open>2 ^ 53\<close>, and the plus
  button at that quantity sends the quantity unchanged.\<close>

lemma js_plus_rounds:
  "js_plus (Finite 9007199254740992) 1 = Finite 9007199254740992"
  by code_simp

lemma requests_ajax: "requests (ajax r pg) = requests pg @ [r]"
  by (simp add: ajax_def)






lemma requests_updateCartItemQuantity:
  "requests (updateCartItemQuantity meta i q pg) =
     requests pg @ [update_quantity_request meta i q]"
  by (simp add: updateCartItemQuantity_def requests_ajax)

text \<open>
  Claim C3, amended. When the new quantity is below 1, the handler calls
  \<open>removeFromCart\<close>, which asks the user: the remove request for the line is sent if the
  user confirms, nothing is sent if not, and the update request is sent in neither case.
  When the new quantity is at least 1, the update request is sent with that quantity.
  This holds for the quantity buttons, where the new quantity is what the code computes:
  the current quantity (1 when \<open>parseInt\<close> gives 0 or \<open>NaN\<close>) plus or minus 1, as a
  double; and it holds for the number that \<open>parseInt\<close> reads in the field.
\<close>

theorem quantity_change_dispatch:
  assumes "newQuantity =
             (if qc_is_increase click then js_plus (number_or (qc_current_qty click) 1) 1
              else js_plus (number_or (qc_current_qty click) 1) (- 1))"
    and "entered = qi_parsed input"
  shows "(less_than newQuantity 1 \<longrightarrow>
            handleQuantityChange meta confirmed click pg =
              (if confirmed
               then ajax (remove_item_request meta
                            (js_or (qc_item_id click) (qc_product_id click))) pg
               else pg)) \<and>
         (at_least newQuantity 1 \<longrightarrow>
            handleQuantityChange meta confirmed click pg =
              ajax (update_quantity_request meta
                      (js_or (qc_item_id click) (qc_product_id click)) newQuantity) pg) \<and>
         (less_than entered 1 \<longrightarrow>
            handleQuantityInputChange meta confirmed input pg =
              (if confirmed
               then ajax (remove_item_request meta
                            (js_or (qi_item_id input) (qi_product_id input))) pg
               else pg)) \<and>
         (at_least entered 1 \<longrightarrow>
            handleQuantityInputChange meta confirmed input pg =
              ajax (update_quantity_request meta
                      (js_or (qi_item_id input) (qi_product_id input)) entered) pg)"
proof -
  have apart: "at_least n 1 \<Longrightarrow> \<not> less_than n 1" for n
    by (cases n) (simp_all add: at_least_def less_than_def)
  show ?thesis
    using assms
    by (auto simp: handleQuantityChange_def handleQuantityInputChange_def Let_def
        removeFromCart_def updateCartItemQuantity_def dest: apart)
qed

theorem quantity_change_dispatch_witness:
  "less_than (js_plus (number_or (qc_current_qty minus_at_one) 1) (- 1)) 1 \<and>
   handleQuantityChange None True minus_at_one blank_page =
     ajax (remove_item_request None (JNumber (Finite 5))) blank_page \<and>
   at_least (js_plus (number_or (qc_current_qty plus_at_one) 1) 1) 1 \<and>
   handleQuantityChange None True plus_at_one blank_page =
     ajax (update_quantity_request None (JNumber (Finite 5)) (Finite 2)) blank_page \<and>
   less_than (qi_parsed typed_zero) 1 \<and>
   handleQuantityInputChange None True typed_zero blank_page =
     ajax (remove_item_request None (JNumber (Finite 5))) blank_page \<and>
   at_least (qi_parsed typed_three) 1 \<and>
   handleQuantityInputChange None True typed_three blank_page =
     ajax (update_quantity_request None (JNumber (Finite 5)) (Finite 3)) blank_page"
proof -
  have minus: "js_plus (number_or (qc_current_qty minus_at_one) 1) (- 1) = Finite 0"
    by (simp add: minus_at_one_def number_or_def js_plus_exact)
  have plus: "js_plus (number_or (qc_current_qty plus_at_one) 1) 1 = Finite 2"
    by (simp add: plus_at_one_def number_or_def js_plus_exact)
  have button_minus:
    "Finite 0 =
       (if qc_is_increase minus_at_one
        then js_plus (number_or (qc_current_qty minus_at_one) 1) 1
        else js_plus (number_or (qc_current_qty minus_at_one) 1) (- 1))"
    by (simp add: minus) (simp add: minus_at_one_def)
  have button_plus:
    "Finite 2 =
       (if qc_is_increase plus_at_one
        then js_plus (number_or (qc_current_qty plus_at_one) 1) 1
        else js_plus (number_or (qc_current_qty plus_at_one) 1) (- 1))"
    by (simp add: plus) (simp add: plus_at_one_def)
  have zero: "Finite 0 = qi_parsed typed_zero"
    by (simp add: typed_zero_def)
  have three: "Finite 3 = qi_parsed typed_three"
    by (simp add: typed_three_def)
  have ids:
    "js_or (qc_item_id minus_at_one) (qc_product_id minus_at_one) = JNumber (Finite 5)"
    "js_or (qc_item_id plus_at_one) (qc_product_id plus_at_one) = JNumber (Finite 5)"
    "js_or (qi_item_id typed_zero) (qi_product_id typed_zero) = JNumber (Finite 5)"
    "js_or (qi_item_id typed_three) (qi_product_id typed_three) = JNumber (Finite 5)"
    by (simp_all add: minus_at_one_def plus_at_one_def typed_zero_def typed_three_def
        js_or_def truthy_def)
  have sides: "less_than (Finite 0) 1" "at_least (Finite 2) 1" "at_least (Finite 3) 1"
    by (simp_all add: less_than_def at_least_def)
  note removal = quantity_change_dispatch [OF button_minus zero, of None True blank_page]
  note update = quantity_change_dispatch [OF button_plus three, of None True blank_page]
  from removal update show ?thesis
    unfolding minus plus zero [symmetric] three [symmetric] ids
    using sides by simp
qed

text \<open>
  Claim C3 as stated fails where the user declines the dialog: the minus button at
  quantity 1 gives the new quantity 0, and no request is sent, the remove request
  included.
\<close>

theorem declined_removal_sends_nothing:
  "less_than (js_plus (number_or (qc_current_qty minus_at_one) 1) (- 1)) 1 \<and>
   requests (handleQuantityChange None False minus_at_one blank_page) = [] \<and>
   remove_item_request None (JNumber (Finite 5)) \<notin>
     set (requests (handleQuantityChange None False minus_at_one blank_page))"
  by (simp add: handleQuantityChange_def Let_def removeFromCart_def minus_at_one_def
      number_or_def js_plus_exact less_than_def blank_page_def)

text \<open>Within the range of exact integers the new quantity of a button is the current
  one plus or minus 1.\<close>

lemma button_new_quantity_exact:
  assumes "qc_current_qty click = Finite n" and "n \<noteq> 0" and "\<bar>n\<bar> < 2 ^ 53 - 1"
  shows "(if qc_is_increase click then js_plus (number_or (qc_current_qty click) 1) 1
          else js_plus (number_or (qc_current_qty click) 1) (- 1)) =
         Finite (if qc_is_increase click then n + 1 else n - 1)"
  using assms by (simp add: number_or_def js_plus_exact)

lemma plus_button_at_2_53:
  "requests
     (handleQuantityChange None True
        \<lparr>qc_item_id = JNumber (Finite 5), qc_product_id = JUndefined, qc_is_increase = True,
         qc_current_qty = Finite 9007199254740992\<rparr> blank_page) =
   [update_quantity_request None (JNumber (Finite 5)) (Finite 9007199254740992)]"
  by (simp add: handleQuantityChange_def Let_def number_or_def js_plus_rounds less_than_def
      js_or_def truthy_def requests_updateCartItemQuantity blank_page_def)








text \<open>The five requests are POST requests, so none of them escapes \<open>posts_carry\<close>.\<close>

lemma five_requests_are_posts:
  "http_method (add_to_cart_request meta p q) = ''POST''"
  "http_method (update_quantity_request meta i n) = ''POST''"
  "http_method (remove_item_request meta i) = ''POST''"
  "http_method (wishlist_request meta p) = ''POST''"
  "http_method (compare_request meta p) = ''POST''"
  by (simp_all add: add_to_cart_request_def update_quantity_request_def remove_item_request_def
      wishlist_request_def compare_request_def)


text \<open>
  While the add-to-cart request is in flight the button is disabled, marked as loading
  and shows the spinner.
\<close>

lemma add_to_cart_in_flight:
  "button (handleAddToCart meta click pg) =
     showSpinner (addClass ''loading'' ((button pg)\<lparr>el_disabled := True\<rparr>)) \<and>
   el_disabled (button (handleAddToCart meta click pg)) \<and>
   ''loading'' \<in> set (el_classes (button (handleAddToCart meta click pg))) \<and>
   el_html (button (handleAddToCart meta click pg)) = spinner_markup"
  by (simp add: handleAddToCart_def Let_def ajax_def showSpinner_def addClass_def)


text \<open>The same holds for every click and for the reply \<open>null\<close>.\<close>

lemma add_to_cart_unreadable_reply:
  "response = Arg_undefined \<or> response = Arg_null \<Longrightarrow>
     add_to_cart_settled meta click (Response response) pg =
       (handleAddToCart meta click pg, Some TypeError)"
  by (auto simp: add_to_cart_settled_def add_to_cart_success_def Let_def)

text \<open>
  Where the handler reports the failure (the request ended without a reply, or the
  reply is a readable value whose \<open>success\<close> field is not truthy), no error is thrown,
  the button is enabled again, the loading mark is removed and the markup saved before
  the request is put back; the other classes of the button are as they were.
\<close>

lemma add_to_cart_reported_failure_restores_button:
  assumes "failure_reported outcome"
  shows "snd (add_to_cart_settled meta click outcome pg) = None \<and>
         button (fst (add_to_cart_settled meta click outcome pg)) =
           (button pg)\<lparr>el_disabled := False,
                        el_classes := filter (\<lambda>c. c \<noteq> ''loading'') (el_classes (button pg))\<rparr> \<and>
         \<not> el_disabled (button (fst (add_to_cart_settled meta click outcome pg))) \<and>
         ''loading'' \<notin> set (el_classes (button (fst (add_to_cart_settled meta click outcome pg)))) \<and>
         el_html (button (fst (add_to_cart_settled meta click outcome pg))) = el_html (button pg)"
proof -
  have settled:
    "add_to_cart_settled meta click outcome pg =
       (fst (add_to_cart_settled meta click outcome pg), None) \<and>
     button (fst (add_to_cart_settled meta click outcome pg)) =
       (button pg)\<lparr>el_disabled := False,
                    el_classes := filter (\<lambda>c. c \<noteq> ''loading'') (el_classes (button pg))\<rparr>"
  proof (cases outcome)
    case (Response response)
    with assms obtain r where r: "response = Arg_value r" "\<not> truthy (resp_success r)"
      by (cases response) (simp_all add: failure_reported_def)
    with Response show ?thesis
      by (simp add: add_to_cart_settled_def add_to_cart_success_def Let_def handleAddToCart_def
          ajax_def showNotification_def showSpinner_def addClass_def removeClass_def)
  next
    case Transport_error
    then show ?thesis
      by (simp add: add_to_cart_settled_def add_to_cart_error_def Let_def handleAddToCart_def
          ajax_def showNotification_def showSpinner_def addClass_def removeClass_def)
  qed
  then have "snd (add_to_cart_settled meta click outcome pg) = None"
    by (metis snd_conv)
  with settled show ?thesis
    by simp
qed

text \<open>A button that was enabled and not marked as loading before the click is, after a
  reported failure, exactly as it was.\<close>

lemma add_to_cart_reported_failure_restores_exactly:
  assumes "failure_reported outcome" and "\<not> el_disabled (button pg)"
    and "''loading'' \<notin> set (el_classes (button pg))"
  shows "button (fst (add_to_cart_settled meta click outcome pg)) = button pg"
proof -
  from assms(3) have classes:
    "filter (\<lambda>d. d \<noteq> ''loading'') (el_classes (button pg)) = el_classes (button pg)"
    by (simp add: filter_id_conv) blast
  from add_to_cart_reported_failure_restores_button [OF assms(1), of meta click pg] assms(2)
  show ?thesis
    by (simp add: classes)
qed

text \<open>On success the handler leaves the button disabled and marked as loading.\<close>

lemma add_to_cart_success_keeps_button_disabled:
  "truthy (resp_success r) \<Longrightarrow>
     el_disabled (button (fst (add_to_cart_settled meta click (Response (Arg_value r)) pg))) \<and>
     ''loading'' \<in>
       set (el_classes (button (fst (add_to_cart_settled meta click (Response (Arg_value r)) pg))))"
  by (simp add: add_to_cart_settled_def add_to_cart_success_def handleAddToCart_def Let_def
      ajax_def updateCartCount_def showNotification_def showSpinner_def addClass_def
      removeClass_def)

text \<open>
  Called with \<open>this\<close> bound to the search field, \<open>handleSearchInput\<close> hides the
  suggestions and sends nothing for a text of fewer than two code units, and sends one
  GET request with the text as \<open>q\<close> otherwise.
\<close>

lemma handleSearchInput_on_field:
  "handleSearchInput (This_element field) e pg =
     (if length (in_value field) < 2 then Inr (pg\<lparr>suggestions_hidden := True\<rparr>)
      else Inr (pg\<lparr>requests :=
                     requests pg @
                       [\<lparr>url = ''/catalog/search/suggestions/'', http_method = ''GET'',
                         data = [(''q'', JString (in_value field))]\<rparr>]\<rparr>))"
  by (simp add: handleSearchInput_def jq_val_def ajax_def)

text \<open>The handler is bound through \<open>debounce\<close> only, which calls it without \<open>this\<close>:
  every input event ends in the \<open>TypeError\<close>, and the page is not changed.\<close>

lemma search_input_event_throws:
  "search_input_event field e pg = Inl TypeError"
  by (simp add: search_input_event_def executedFunction_def later_def handleSearchInput_def
      jq_val_def)

text \<open>
  Claim C9 says that for a text of two or more code units the handler sends exactly one
  GET request to the suggestions endpoint with the text as \<open>q\<close>. The code does otherwise:
  with \<open>ab\<close> in the search field, the input event ends in a \<open>TypeError\<close> and no request
  is sent.
\<close>

theorem search_input_ab_throws:
  "length (in_value field_ab) = 2 \<and>
   search_input_event field_ab () blank_page = Inl TypeError"
  by (simp add: search_input_event_def executedFunction_def later_def handleSearchInput_def
      jq_val_def field_ab_def ascii_def)

end
